theory Spec2Isabelle
  imports Complex_Main "HOL-Library.Monad_Syntax"
begin

section \<open>The restart tasks (Ansible tasks, tag \<open>templar_restart\<close>)\<close>

text \<open>
  The three PM2 tasks of the play have the same shape:
  \<^verbatim>\<open>
  - name: Restart validator processes via PM2
    shell: pm2 restart ecosystem.config.js --only "TV{{ item }}"
    args:
      chdir: "{{ templar_path }}"
    loop: "{{ range(1, validator_hotkeys|length + 1) | list }}"
    when: validator_hotkeys|length > 0
  \<close>
  A task is modelled by the list of shell commands it hands to the \<open>shell\<close> module, each
  with the working directory it runs in. Whether \<open>pm2\<close> itself succeeds is outside the
  tasks and is not modelled.
\<close>

subsection \<open>Jinja2 expressions used by the tasks\<close>

text \<open>\<open>{{ item }}\<close> renders a Python integer: its decimal digits.\<close>

definition digit_char :: "nat \<Rightarrow> char" where
  "digit_char d = ''0123456789'' ! d"

fun jinja_str :: "nat \<Rightarrow> string" where
  "jinja_str n =
     (if n < 10 then [digit_char n] else jinja_str (n div 10) @ [digit_char (n mod 10)])"

declare jinja_str.simps [simp del]

text \<open>\<open>range(a, b) | list\<close>: the integers from \<open>a\<close> up to, not including, \<open>b\<close>.\<close>

definition jinja_range :: "nat \<Rightarrow> nat \<Rightarrow> nat list" where
  "jinja_range a b = [a ..< b]"

subsection \<open>Variables, directives and task outcomes\<close>

text \<open>
  The inventory variables the tasks read. A hotkey list that the inventory does not
  define is \<open>None\<close>: only the aggregator task guards against it, with \<open>default([])\<close>.
\<close>

record inventory =
  templar_path :: string
  validator_hotkeys :: "string list option"
  aggregator_hotkeys :: "string list option"
  miner_hotkeys :: "string list option"

record directive =
  shell :: string
  chdir :: string

text \<open>
  \<open>Failed\<close>: a template of the task refers to an undefined variable.
  \<open>Skipped\<close>: no item of the loop passed the \<open>when\<close> condition, nothing ran.
  \<open>Ran ds\<close>: the commands issued, in loop order.
\<close>

datatype task_result = Failed | Skipped | Ran "directive list"

text \<open>A task with \<open>loop\<close> and \<open>when\<close>: the condition is tested for every item.\<close>

definition loop_task :: "(nat \<Rightarrow> directive) \<Rightarrow> nat list \<Rightarrow> (nat \<Rightarrow> bool) \<Rightarrow> task_result" where
  "loop_task cmd items cond =
     (let run = filter cond items in if run = [] then Skipped else Ran (map cmd run))"

definition restart_validator :: "inventory \<Rightarrow> task_result" where
  "restart_validator ivars =
     (case validator_hotkeys ivars of
        None \<Rightarrow> Failed
      | Some hotkeys \<Rightarrow>
          loop_task
            (\<lambda>item. \<lparr>shell = ''pm2 restart ecosystem.config.js --only \"TV'' @ jinja_str item @ ''\"'',
                     chdir = templar_path ivars\<rparr>)
            (jinja_range 1 (length hotkeys + 1))
            (\<lambda>item. length hotkeys > 0))"

definition restart_aggregator :: "inventory \<Rightarrow> task_result" where
  "restart_aggregator ivars =
     (let hotkeys = (case aggregator_hotkeys ivars of None \<Rightarrow> [] | Some hs \<Rightarrow> hs) in
      loop_task
        (\<lambda>item. \<lparr>shell = ''pm2 restart ecosystem.config.js --only \"TA'' @ jinja_str item @ ''\"'',
                 chdir = templar_path ivars\<rparr>)
        (jinja_range 1 (length hotkeys + 1))
        (\<lambda>item. length hotkeys > 0))"

definition restart_miner :: "inventory \<Rightarrow> task_result" where
  "restart_miner ivars =
     (case miner_hotkeys ivars of
        None \<Rightarrow> Failed
      | Some hotkeys \<Rightarrow>
          loop_task
            (\<lambda>item. \<lparr>shell = ''pm2 restart ecosystem.config.js --only \"TM'' @ jinja_str item @ ''\"'',
                     chdir = templar_path ivars\<rparr>)
            (jinja_range 1 (length hotkeys + 1))
            (\<lambda>item. length hotkeys > 0))"

fun directives :: "task_result \<Rightarrow> directive list" where
  "directives Failed = []"
| "directives Skipped = []"
| "directives (Ran ds) = ds"

subsection \<open>Roles, as the specification names them\<close>

datatype role = miner | validator | aggregator

fun Prefix :: "role \<Rightarrow> string" where
  "Prefix miner = ''TM''"
| "Prefix validator = ''TV''"
| "Prefix aggregator = ''TA''"

text \<open>The task of the play that restarts a role, and the variable that carries its count.\<close>

fun restart_role :: "role \<Rightarrow> inventory \<Rightarrow> task_result" where
  "restart_role miner ivars = restart_miner ivars"
| "restart_role validator ivars = restart_validator ivars"
| "restart_role aggregator ivars = restart_aggregator ivars"

fun role_hotkeys :: "role \<Rightarrow> inventory \<Rightarrow> string list option" where
  "role_hotkeys miner ivars = miner_hotkeys ivars"
| "role_hotkeys validator ivars = validator_hotkeys ivars"
| "role_hotkeys aggregator ivars = aggregator_hotkeys ivars"


section \<open>The process manager configuration (ecosystem.config.js)\<close>

subsection \<open>The shell pipeline behind \<open>RANDOM_SUFFIX\<close>\<close>

text \<open>
  \<^verbatim>\<open>cat /dev/urandom | tr -dc 'a-z0-9' | fold -w 4 | head -n 1\<close>, run by
  \<open>execSync\<close>, whose output is then \<open>.toString().trim()\<close>med. Characters are bytes.
\<close>

definition char_range :: "char \<Rightarrow> char \<Rightarrow> char list" where
  "char_range lo hi = map char_of [(of_char lo :: nat) ..< Suc (of_char hi)]"

text \<open>The set \<open>'a-z0-9'\<close> given to \<open>tr\<close>.\<close>

definition tr_set :: "char list" where
  "tr_set = char_range CHR ''a'' CHR ''z'' @ char_range CHR ''0'' CHR ''9''"

text \<open>\<open>tr -dc SET\<close> deletes every byte that is not in the set.\<close>

definition tr_dc :: "char list \<Rightarrow> string \<Rightarrow> string" where
  "tr_dc keep inp = filter (\<lambda>c. c \<in> set keep) inp"

text \<open>
  \<open>fold -w width\<close>, with the current column as second argument: a character that would make
  the line wider than \<open>width\<close> is preceded by a line break; a line break of the input
  resets the column. Every other character counts one column (after \<open>tr\<close> only letters
  and digits are left).
\<close>

fun fold_w :: "nat \<Rightarrow> nat \<Rightarrow> string \<Rightarrow> string" where
  "fold_w width col [] = []"
| "fold_w width col (c # cs) =
     (if c = CHR 0x0A then c # fold_w width 0 cs
      else if col + 1 > width then CHR 0x0A # c # fold_w width 1 cs
      else c # fold_w width (col + 1) cs)"

text \<open>\<open>head -n 1\<close>: the input up to and including its first line break.\<close>

fun head_n1 :: "string \<Rightarrow> string" where
  "head_n1 [] = []"
| "head_n1 (c # cs) = (if c = CHR 0x0A then [c] else c # head_n1 cs)"

text \<open>\<open>String.prototype.trim\<close> on ASCII text: white space and line terminators go, at both ends.\<close>

definition js_whitespace :: "char \<Rightarrow> bool" where
  "js_whitespace c \<longleftrightarrow> c \<in> {CHR 0x09, CHR 0x0A, CHR 0x0B, CHR 0x0C, CHR 0x0D, CHR 0x20}"

definition js_trim :: "string \<Rightarrow> string" where
  "js_trim s = rev (dropWhile js_whitespace (rev (dropWhile js_whitespace s)))"

text \<open>
  \<open>urandom\<close> is what the device has delivered so far. The device never reports the end of
  the file, so as long as \<open>head\<close> has not seen a whole line the pipeline has not
  returned: \<open>None\<close>.
\<close>

definition RANDOM_SUFFIX :: "string \<Rightarrow> string option" where
  "RANDOM_SUFFIX urandom =
     (let out = head_n1 (fold_w 4 0 (tr_dc tr_set urandom)) in
      if out \<noteq> [] \<and> last out = CHR 0x0A then Some (js_trim out) else None)"

definition PROJECT_NAME :: "string \<Rightarrow> string" where
  "PROJECT_NAME random_suffix = ''test_'' @ random_suffix"

subsection \<open>The exported object\<close>

record app =
  name :: string
  script :: string
  interpreter :: string
  env :: "string \<rightharpoonup> string"
  args :: string

text \<open>
  \<open>require('dotenv').config({ path: '.env' })\<close>, with the library's default of not
  overriding: a key of the parsed file is added to \<open>process.env\<close> only where the
  environment has no such key. \<open>None\<close>: there is no \<open>.env\<close> file, nothing changes.
\<close>

definition dotenv_config :: "(string \<rightharpoonup> string) option \<Rightarrow> (string \<rightharpoonup> string) \<Rightarrow> (string \<rightharpoonup> string)" where
  "dotenv_config parsed process_env = (case parsed of None \<Rightarrow> process_env | Some kv \<Rightarrow> kv ++ process_env)"

text \<open>
  \<open>module.exports.apps\<close>, given \<open>process.env\<close> and the value of the constant
  \<open>PROJECT_NAME\<close>. The entry \<open>TA1\<close> is commented out in the source.
\<close>

definition apps :: "(string \<rightharpoonup> string) \<Rightarrow> string \<Rightarrow> app list" where
  "apps process_env project =
    [\<lparr>name = ''TM1'', script = ''neurons/miner.py'', interpreter = ''python3'',
      env = process_env(''PROJECT_NAME'' \<mapsto> project),
      args = ''--wallet.name Bistro --wallet.hotkey M1 --device cuda:2 --subtensor.network ws://127.0.0.1:9945 --netuid 1 --use_wandb --project \"'' @ project @ ''\" --local''\<rparr>,
     \<lparr>name = ''TM2'', script = ''neurons/miner.py'', interpreter = ''python3'',
      env = process_env(''PROJECT_NAME'' \<mapsto> project),
      args = ''--wallet.name Bistro --wallet.hotkey M2 --device cuda:3 --subtensor.network ws://127.0.0.1:9945 --netuid 1 --use_wandb --project \"'' @ project @ ''\" --local''\<rparr>,
     \<lparr>name = ''TM3'', script = ''neurons/miner.py'', interpreter = ''python3'',
      env = process_env(''PROJECT_NAME'' \<mapsto> project),
      args = ''--wallet.name Bistro --wallet.hotkey M3 --device cuda:4 --subtensor.network ws://127.0.0.1:9945 --netuid 1 --use_wandb --project \"'' @ project @ ''\" --local''\<rparr>,
     \<lparr>name = ''TM4'', script = ''neurons/miner.py'', interpreter = ''python3'',
      env = process_env(''PROJECT_NAME'' \<mapsto> project),
      args = ''--wallet.name Bistro --wallet.hotkey M4 --device cuda:5 --subtensor.network ws://127.0.0.1:9945 --netuid 1 --use_wandb --project \"'' @ project @ ''\"--local''\<rparr>,
     \<lparr>name = ''TM5'', script = ''neurons/miner.py'', interpreter = ''python3'',
      env = process_env(''PROJECT_NAME'' \<mapsto> project),
      args = ''--wallet.name Bistro --wallet.hotkey M5 --device cuda:6 --subtensor.network ws://127.0.0.1:9945 --netuid 1 --use_wandb --project \"'' @ project @ ''\" --local''\<rparr>,
     \<lparr>name = ''TV1'', script = ''neurons/validator.py'', interpreter = ''python3'',
      env = process_env(''PROJECT_NAME'' \<mapsto> project),
      args = ''--wallet.name Bistro --wallet.hotkey V1 --device cuda:1 --subtensor.network ws://127.0.0.1:9945 --netuid 1 --use_wandb --project \"'' @ project @ ''\" --local''\<rparr>]"

text \<open>
  One load of the file: \<open>dotenv_file\<close> is the parsed \<open>.env\<close> file, \<open>os_env\<close> the
  environment the process was started with, \<open>urandom\<close> the bytes of the random device.
  The suffix is taken once and the one \<open>PROJECT_NAME\<close> goes into every entry.
\<close>

definition ecosystem_config ::
  "(string \<rightharpoonup> string) option \<Rightarrow> (string \<rightharpoonup> string) \<Rightarrow> string \<Rightarrow> app list option" where
  "ecosystem_config dotenv_file os_env urandom =
     (let process_env = dotenv_config dotenv_file os_env in
      case RANDOM_SUFFIX urandom of
        None \<Rightarrow> None
      | Some random_suffix \<Rightarrow> Some (apps process_env (PROJECT_NAME random_suffix)))"

subsection \<open>Notions of the specification about the descriptor set\<close>

text \<open>
  The suffixes the pipeline can produce, and the chance that two independent loads, each
  drawing its suffix uniformly from them, end with the same \<open>PROJECT_NAME\<close>.
\<close>

definition suffix_space :: "string set" where
  "suffix_space = {s. length s = 4 \<and> set s \<subseteq> set tr_set}"

definition collision_probability :: real where
  "collision_probability =
     real (card {(s1, s2). s1 \<in> suffix_space \<and> s2 \<in> suffix_space \<and> PROJECT_NAME s1 = PROJECT_NAME s2})
       / real (card (suffix_space \<times> suffix_space))"

text \<open>
  The entries of a role are those whose name starts with the role's prefix.
  An argument string misses a separator where the \<open>--\<close> of a flag follows a character
  that is not a blank. \<open>split_blanks\<close> cuts an argument string at its blanks, and
  \<open>flag_value_tokens\<close> is the sequence of flags and values every entry is meant to have,
  up to its last tokens.
\<close>

fun missing_separator :: "string \<Rightarrow> bool" where
  "missing_separator (x # y # z # rest) =
     ((x \<noteq> CHR '' '' \<and> y = CHR ''-'' \<and> z = CHR ''-'') \<or> missing_separator (y # z # rest))"
| "missing_separator _ = False"

fun split_blanks :: "string \<Rightarrow> string list" where
  "split_blanks [] = [[]]"
| "split_blanks (c # cs) =
     (if c = CHR '' '' then [] # split_blanks cs
      else (case split_blanks cs of [] \<Rightarrow> [[c]] | w # ws \<Rightarrow> (c # w) # ws))"

definition role_entries :: "role \<Rightarrow> app list \<Rightarrow> app list" where
  "role_entries R cfg = filter (\<lambda>e. take 2 (name e) = Prefix R) cfg"

definition flag_value_tokens :: "string \<Rightarrow> string \<Rightarrow> string list \<Rightarrow> string list" where
  "flag_value_tokens hotkey device tail =
     [''--wallet.name'', ''Bistro'', ''--wallet.hotkey'', hotkey, ''--device'', device,
      ''--subtensor.network'', ''ws://127.0.0.1:9945'', ''--netuid'', ''1'', ''--use_wandb'',
      ''--project''] @ tail"

section \<open>The interactive launch script (scripts/docker_run)\<close>

subsection \<open>Shell builtins the script uses\<close>

text \<open>
  \<open>echo\<close>, the builtin: leading words of the form \<open>-\<close> followed by letters among
  \<open>n\<close>, \<open>e\<close>, \<open>E\<close> are options, also when they come from an expanded variable;
  \<open>-n\<close> drops the final line break. The operands are joined by single spaces.
  (Where the script's functions call \<open>echo\<close>, no operand follows a \<open>-e\<close>, so the
  expansion of backslash sequences is left out.)
\<close>

definition echo_option :: "string \<Rightarrow> bool" where
  "echo_option w =
     (case w of [] \<Rightarrow> False | c # letters \<Rightarrow> c = CHR ''-'' \<and> letters \<noteq> [] \<and> set letters \<subseteq> set ''neE'')"

fun echo_operands :: "bool \<Rightarrow> string list \<Rightarrow> bool \<times> string list" where
  "echo_operands n [] = (n, [])"
| "echo_operands n (w # ws) =
     (if echo_option w then echo_operands (n \<or> CHR ''n'' \<in> set w) ws else (n, w # ws))"

fun join_spaces :: "string list \<Rightarrow> string" where
  "join_spaces [] = []"
| "join_spaces [w] = w"
| "join_spaces (w # ws) = w @ CHR '' '' # join_spaces ws"

definition bash_echo :: "string list \<Rightarrow> string" where
  "bash_echo ws =
     (case echo_operands False ws of (n, operands) \<Rightarrow>
        join_spaces operands @ (if n then [] else [CHR 0x0A]))"

text \<open>\<open>$(...)\<close>: the standard output of the command, without its trailing line breaks.\<close>

definition cmd_subst :: "string \<Rightarrow> string" where
  "cmd_subst out = rev (dropWhile (\<lambda>c. c = CHR 0x0A) (rev out))"

text \<open>
  Standard input is the list of the values that the successive \<open>read response\<close> calls
  assign, one per line typed (the builtin has taken off the line break, the surrounding
  blanks and the backslashes). After the last line every \<open>read\<close> assigns the empty
  string.
\<close>

definition bash_read :: "string list \<Rightarrow> string \<times> string list" where
  "bash_read stdin = (case stdin of [] \<Rightarrow> ([], []) | line # rest \<Rightarrow> (line, rest))"

subsection \<open>The two prompt functions\<close>

text \<open>
  Both functions are called as \<open>VAR=$(prompt_... "...")\<close>. Each returns what it has
  written to its standard output, all \<open>echo\<close>s of the function body in order, and the
  rest of the standard input.
  \<^verbatim>\<open>
  prompt_with_default() {
      local prompt="$1"
      local default="$2"
      local response
      echo -n "$prompt [$default]: "
      read response
      echo "${response:-$default}"
  }
  \<close>
\<close>

definition prompt_with_default :: "string \<Rightarrow> string \<Rightarrow> string list \<Rightarrow> string \<times> string list" where
  "prompt_with_default prompt default' stdin =
     (case bash_read stdin of (response, rest) \<Rightarrow>
        (bash_echo [''-n'', prompt @ '' ['' @ default' @ '']: '']
           @ bash_echo [if response = [] then default' else response],
         rest))"

text \<open>
  \<^verbatim>\<open>
  prompt_required() {
      local prompt="$1"
      local response=""
      while [ -z "$response" ]; do
          echo -n "$prompt: "
          read response
          if [ -z "$response" ]; then
              echo "This field is required"
          fi
      done
      echo "$response"
  }
  \<close>
  One equation per turn of the loop. At the end of the input \<open>read\<close> keeps assigning the
  empty string and the loop does not end: \<open>None\<close>.
\<close>

fun prompt_required :: "string \<Rightarrow> string list \<Rightarrow> (string \<times> string list) option" where
  "prompt_required prompt [] = None"
| "prompt_required prompt (response # rest) =
     (if response = [] then
        map_option
          (\<lambda>(out, rest'). (bash_echo [''-n'', prompt @ '': ''] @ bash_echo [''This field is required''] @ out, rest'))
          (prompt_required prompt rest)
      else Some (bash_echo [''-n'', prompt @ '': ''] @ bash_echo [response], rest))"

subsection \<open>Shell variables and the environment of a child process\<close>

text \<open>
  The eight variables the script assigns. The shell has more variables, its own among
  them (\<open>PWD\<close>, \<open>SHLVL\<close>, \<open>_\<close>) and whatever else it inherited; the script neither reads
  nor writes them, and they are no part of the state below.
\<close>

datatype var =
  NODE_TYPE | WALLET_NAME | WALLET_HOTKEY | WANDB_API_KEY | NETWORK | CUDA_DEVICE | DEBUG
  | COMPOSE_FILE

text \<open>
  A variable may have a value and may carry the export attribute, the one without the
  other. With the option \<open>allexport\<close> on, every assignment gives its variable the
  attribute. The script never sets the option: the shell has it from its start-up or not
  at all.
\<close>

record shell_state =
  variables :: "var \<rightharpoonup> string"
  exported :: "var \<Rightarrow> bool"
  allexport :: bool

text \<open>
  The usual start: the variables of the environment, each with the export attribute, and
  \<open>allexport\<close> as the inherited \<open>SHELLOPTS\<close> says. (A file named by \<open>BASH_ENV\<close> can
  leave any other state; the script is therefore modelled from an arbitrary one.)
\<close>

definition startup :: "(var \<rightharpoonup> string) \<Rightarrow> bool \<Rightarrow> shell_state" where
  "startup ambient shellopts_allexport =
     \<lparr>variables = ambient, exported = (\<lambda>x. ambient x \<noteq> None), allexport = shellopts_allexport\<rparr>"

definition assign :: "var \<Rightarrow> string \<Rightarrow> shell_state \<Rightarrow> shell_state" where
  "assign x v sh =
     sh\<lparr>variables := (variables sh)(x \<mapsto> v),
        exported := (\<lambda>y. exported sh y \<or> (allexport sh \<and> y = x))\<rparr>"

definition export :: "var list \<Rightarrow> shell_state \<Rightarrow> shell_state" where
  "export xs sh = sh\<lparr>exported := (\<lambda>x. exported sh x \<or> x \<in> set xs)\<rparr>"

text \<open>\<open>$x\<close>: the value, or the empty string for an unset variable.\<close>

definition expand :: "shell_state \<Rightarrow> var \<Rightarrow> string" where
  "expand sh x = (case variables sh x of None \<Rightarrow> [] | Some v \<Rightarrow> v)"

text \<open>What a command started by the shell finds in its environment under these names.\<close>

definition child_env :: "shell_state \<Rightarrow> (var \<rightharpoonup> string)" where
  "child_env sh = (\<lambda>x. if exported sh x then variables sh x else None)"

subsection \<open>The script\<close>

text \<open>
  What the script ends with: the values of its variables, and the \<open>docker compose\<close>
  command with its argument vector and, under the script's names, its environment.
\<close>

record launch =
  shell_vars :: "var \<rightharpoonup> string"
  argv :: "string list"
  environ :: "var \<rightharpoonup> string"

text \<open>
  \<^verbatim>\<open>
  NODE_TYPE=$(prompt_with_default "Enter node type (miner/validator)" "miner")
  WALLET_NAME=$(prompt_required "Enter wallet name")
  WALLET_HOTKEY=$(prompt_required "Enter wallet hotkey")
  WANDB_API_KEY=$(prompt_required "Enter Weights & Biases API key")
  NETWORK=$(prompt_with_default "Enter network" "test")
  CUDA_DEVICE=$(prompt_with_default "Enter CUDA device" "cuda:0")
  DEBUG=$(prompt_with_default "Enable debug mode? (true/false)" "false")
  export WALLET_NAME WALLET_HOTKEY WANDB_API_KEY NETWORK CUDA_DEVICE DEBUG
  COMPOSE_FILE="docker/compose.${NODE_TYPE}.yml"
  docker compose -f "$COMPOSE_FILE" up -d
  \<close>
  \<open>start\<close> is the state of the shell when the first of these lines runs.
  \<open>None\<close>: a required prompt never ends, \<open>docker compose\<close> is not reached.
\<close>

definition docker_run :: "shell_state \<Rightarrow> string list \<Rightarrow> launch option" where
  "docker_run start stdin = do {
     let sh = start;
     let (out, stdin) = prompt_with_default ''Enter node type (miner/validator)'' ''miner'' stdin;
     let sh = assign NODE_TYPE (cmd_subst out) sh;
     (out, stdin) \<leftarrow> prompt_required ''Enter wallet name'' stdin;
     let sh = assign WALLET_NAME (cmd_subst out) sh;
     (out, stdin) \<leftarrow> prompt_required ''Enter wallet hotkey'' stdin;
     let sh = assign WALLET_HOTKEY (cmd_subst out) sh;
     (out, stdin) \<leftarrow> prompt_required ''Enter Weights & Biases API key'' stdin;
     let sh = assign WANDB_API_KEY (cmd_subst out) sh;
     let (out, stdin) = prompt_with_default ''Enter network'' ''test'' stdin;
     let sh = assign NETWORK (cmd_subst out) sh;
     let (out, stdin) = prompt_with_default ''Enter CUDA device'' ''cuda:0'' stdin;
     let sh = assign CUDA_DEVICE (cmd_subst out) sh;
     let (out, stdin) = prompt_with_default ''Enable debug mode? (true/false)'' ''false'' stdin;
     let sh = assign DEBUG (cmd_subst out) sh;
     let sh = export [WALLET_NAME, WALLET_HOTKEY, WANDB_API_KEY, NETWORK, CUDA_DEVICE, DEBUG] sh;
     let sh = assign COMPOSE_FILE (''docker/compose.'' @ expand sh NODE_TYPE @ ''.yml'') sh;
     Some \<lparr>shell_vars = variables sh,
           argv = [''docker'', ''compose'', ''-f'', expand sh COMPOSE_FILE, ''up'', ''-d''],
           environ = child_env sh\<rparr>
   }"

section \<open>Properties of the restart tasks\<close>







lemma loop_task_guarded:
  "directives (loop_task cmd (jinja_range a b) (\<lambda>item. P)) = (if P then map cmd [a ..< b] else [])"
  by (simp add: loop_task_def jinja_range_def)



section \<open>Properties of the configuration\<close>

lemma tr_set_chars: "tr_set = ''abcdefghijklmnopqrstuvwxyz0123456789''"
  by code_simp

lemma tr_set_not_whitespace: "c \<in> set tr_set \<Longrightarrow> \<not> js_whitespace c"
  by (auto simp: tr_set_chars js_whitespace_def)

lemma tr_set_not_newline: "c \<in> set tr_set \<Longrightarrow> c \<noteq> CHR 0x0A"
  by (auto simp: tr_set_chars)

lemma fold_w_fits: "CHR 0x0A \<notin> set xs \<Longrightarrow> col + length xs \<le> w \<Longrightarrow> fold_w w col xs = xs"
  by (induction xs arbitrary: col) auto

lemma head_n1_no_newline: "CHR 0x0A \<notin> set xs \<Longrightarrow> head_n1 xs = xs"
  by (induction xs) auto

lemma set_tr_dc: "set (tr_dc keep inp) \<subseteq> set keep"
  by (auto simp: tr_dc_def)

lemma pipeline_short:
  assumes "set xs \<subseteq> set tr_set" and "length xs \<le> 4"
  shows "head_n1 (fold_w 4 0 xs) = xs"
proof -
  from assms(1) have n: "CHR 0x0A \<notin> set xs" using tr_set_not_newline by blast
  with assms(2) show ?thesis by (simp add: fold_w_fits head_n1_no_newline)
qed

lemma pipeline_long:
  assumes "set (a # b # c # d # e # rest) \<subseteq> set tr_set"
  shows "head_n1 (fold_w 4 0 (a # b # c # d # e # rest)) = [a, b, c, d, CHR 0x0A]"
proof -
  from assms have "a \<noteq> CHR 0x0A" "b \<noteq> CHR 0x0A" "c \<noteq> CHR 0x0A" "d \<noteq> CHR 0x0A" "e \<noteq> CHR 0x0A"
    using tr_set_not_newline by auto
  then show ?thesis by simp
qed

lemma js_trim_line:
  assumes "\<not> js_whitespace a" and "\<not> js_whitespace d"
  shows "js_trim [a, b, c, d, CHR 0x0A] = [a, b, c, d]"
  using assms by (simp add: js_trim_def js_whitespace_def)

lemma five_or_short:
  "(\<exists>a b c d e rest. xs = a # b # c # d # e # rest) \<or> length xs \<le> 4"
proof (cases xs)
  case Nil then show ?thesis by simp
next
  case (Cons a x1) then show ?thesis
  proof (cases x1)
    case Nil with Cons show ?thesis by simp
  next
    case (Cons b x2) note c2 = this
    show ?thesis
    proof (cases x2)
      case Nil with c2 \<open>xs = a # x1\<close> show ?thesis by simp
    next
      case (Cons c x3) note c3 = this
      show ?thesis
      proof (cases x3)
        case Nil with c2 c3 \<open>xs = a # x1\<close> show ?thesis by simp
      next
        case (Cons d x4) note c4 = this
        show ?thesis
        proof (cases x4)
          case Nil with c2 c3 c4 \<open>xs = a # x1\<close> show ?thesis by simp
        next
          case (Cons e x5) with c2 c3 c4 \<open>xs = a # x1\<close> show ?thesis by simp
        qed
      qed
    qed
  qed
qed

lemma RANDOM_SUFFIX_eq:
  "RANDOM_SUFFIX urandom =
     (if 5 \<le> length (tr_dc tr_set urandom) then Some (take 4 (tr_dc tr_set urandom)) else None)"
proof -
  let ?xs = "tr_dc tr_set urandom"
  have sub: "set ?xs \<subseteq> set tr_set" by (rule set_tr_dc)
  from five_or_short [of ?xs] show ?thesis
  proof
    assume "\<exists>a b c d e rest. ?xs = a # b # c # d # e # rest"
    then obtain a b c d e rest where xs: "?xs = a # b # c # d # e # rest" by blast
    with sub have s: "set (a # b # c # d # e # rest) \<subseteq> set tr_set" by simp
    then have "\<not> js_whitespace a" "\<not> js_whitespace d" using tr_set_not_whitespace by auto
    then have t: "js_trim [a, b, c, d, CHR 0x0A] = [a, b, c, d]" by (rule js_trim_line)
    have "RANDOM_SUFFIX urandom = Some [a, b, c, d]"
      unfolding RANDOM_SUFFIX_def xs pipeline_long [OF s] Let_def using t by simp
    with xs show ?thesis by simp
  next
    assume le: "length ?xs \<le> 4"
    have out: "head_n1 (fold_w 4 0 ?xs) = ?xs" using sub le by (rule pipeline_short)
    have "?xs \<noteq> [] \<Longrightarrow> last ?xs \<noteq> CHR 0x0A"
      using sub tr_set_not_newline last_in_set [of ?xs] by blast
    then have "RANDOM_SUFFIX urandom = None"
      unfolding RANDOM_SUFFIX_def out Let_def by auto
    with le show ?thesis by simp
  qed
qed

lemma RANDOM_SUFFIX_in_space: "RANDOM_SUFFIX urandom = Some s \<Longrightarrow> s \<in> suffix_space"
proof -
  assume a: "RANDOM_SUFFIX urandom = Some s"
  then have l: "5 \<le> length (tr_dc tr_set urandom)" and s: "s = take 4 (tr_dc tr_set urandom)"
    by (auto simp: RANDOM_SUFFIX_eq split: if_splits)
  have "set s \<subseteq> set tr_set" unfolding s using set_tr_dc [of tr_set urandom] set_take_subset by fast
  with l s show ?thesis by (simp add: suffix_space_def)
qed

lemma RANDOM_SUFFIX_onto: "s \<in> suffix_space \<Longrightarrow> RANDOM_SUFFIX (s @ ''a'') = Some s"
proof -
  assume "s \<in> suffix_space"
  then have l: "length s = 4" and sub: "set s \<subseteq> set tr_set" by (auto simp: suffix_space_def)
  have "CHR ''a'' \<in> set tr_set" by (simp add: tr_set_chars)
  with sub have "tr_dc tr_set (s @ ''a'') = s @ ''a''" by (auto simp: tr_dc_def filter_id_conv)
  with l show ?thesis by (simp add: RANDOM_SUFFIX_eq)
qed

lemma card_suffix_space: "card suffix_space = 1679616"
proof -
  have d: "distinct tr_set" by (simp add: tr_set_chars)
  have "card (set tr_set) = 36" using distinct_card [OF d] by (simp add: tr_set_chars)
  moreover have "suffix_space = {s. set s \<subseteq> set tr_set \<and> length s = 4}"
    by (auto simp: suffix_space_def)
  ultimately show ?thesis using card_lists_length_eq [of "set tr_set" 4] by simp
qed

lemma finite_suffix_space: "finite suffix_space"
  using card_suffix_space by (rule_tac card_ge_0_finite) simp

lemma collision_probability_value: "collision_probability = 1 / 1679616"
proof -
  have "{(s1, s2). s1 \<in> suffix_space \<and> s2 \<in> suffix_space \<and> PROJECT_NAME s1 = PROJECT_NAME s2}
        = (\<lambda>s. (s, s)) ` suffix_space"
    by (auto simp: PROJECT_NAME_def)
  moreover have "card ((\<lambda>s. (s, s)) ` suffix_space) = card suffix_space"
    by (rule card_image) (simp add: inj_on_def)
  ultimately show ?thesis
    by (simp add: collision_probability_def card_cartesian_product card_suffix_space)
qed

lemma ecosystem_config_Some:
  "ecosystem_config dotenv_file os_env urandom = Some cfg \<Longrightarrow>
     \<exists>sfx. RANDOM_SUFFIX urandom = Some sfx \<and> cfg = apps (dotenv_config dotenv_file os_env) (PROJECT_NAME sfx)"
  by (auto simp: ecosystem_config_def Let_def split: option.splits)

lemma apps_env: "e \<in> set (apps penv project) \<Longrightarrow> env e = penv(''PROJECT_NAME'' \<mapsto> project)"
  by (auto simp: apps_def)

lemma apps_env_list:
  "map (\<lambda>e. env e ''PROJECT_NAME'') (apps penv project) = replicate 6 (Some project)"
  by (simp add: apps_def numeral_eq_Suc)

lemma apps_names: "map name (apps penv project) = [''TM1'', ''TM2'', ''TM3'', ''TM4'', ''TM5'', ''TV1'']"
  by (simp add: apps_def)

lemma suffix_space_chars:
  "s \<in> suffix_space \<Longrightarrow> \<exists>a b c d. s = [a, b, c, d] \<and> {a, b, c, d} \<subseteq> set tr_set"
proof -
  assume "s \<in> suffix_space"
  then have l: "length s = 4" and sub: "set s \<subseteq> set tr_set" by (auto simp: suffix_space_def)
  from l obtain a b c d where "s = [a, b, c, d]"
    by (auto simp: length_Suc_conv numeral_eq_Suc)
  with sub show ?thesis by auto
qed

lemma tr_set_plain: "c \<in> set tr_set \<Longrightarrow> c \<noteq> CHR '' '' \<and> c \<noteq> CHR ''-''"
  by (auto simp: tr_set_chars)

lemma apps_missing_separator:
  assumes "a \<noteq> CHR ''-''" "b \<noteq> CHR ''-''" "c \<noteq> CHR ''-''" "d \<noteq> CHR ''-''"
  shows "map name (filter (\<lambda>e. missing_separator (args e)) (apps penv (PROJECT_NAME [a, b, c, d]))) = [''TM4'']"
  using assms by (simp add: apps_def PROJECT_NAME_def)

lemma apps_tokens:
  assumes "a \<noteq> CHR '' ''" "b \<noteq> CHR '' ''" "c \<noteq> CHR '' ''" "d \<noteq> CHR '' ''"
  shows "map (\<lambda>e. split_blanks (args e)) (apps penv (PROJECT_NAME [a, b, c, d])) =
      [flag_value_tokens ''M1'' ''cuda:2'' [''\"'' @ PROJECT_NAME [a, b, c, d] @ ''\"'', ''--local''],
       flag_value_tokens ''M2'' ''cuda:3'' [''\"'' @ PROJECT_NAME [a, b, c, d] @ ''\"'', ''--local''],
       flag_value_tokens ''M3'' ''cuda:4'' [''\"'' @ PROJECT_NAME [a, b, c, d] @ ''\"'', ''--local''],
       flag_value_tokens ''M4'' ''cuda:5'' [''\"'' @ PROJECT_NAME [a, b, c, d] @ ''\"--local''],
       flag_value_tokens ''M5'' ''cuda:6'' [''\"'' @ PROJECT_NAME [a, b, c, d] @ ''\"'', ''--local''],
       flag_value_tokens ''V1'' ''cuda:1'' [''\"'' @ PROJECT_NAME [a, b, c, d] @ ''\"'', ''--local'']]"
  using assms by (simp add: apps_def PROJECT_NAME_def flag_value_tokens_def)

lemma load_concrete:
  "ecosystem_config (Some [''WANDB_API_KEY'' \<mapsto> ''k'']) [''HOME'' \<mapsto> ''/root''] ''k3-x9z''
     = Some (apps ([''WANDB_API_KEY'' \<mapsto> ''k''] ++ [''HOME'' \<mapsto> ''/root'']) ''test_k3x9'')"
  by (simp add: ecosystem_config_def RANDOM_SUFFIX_eq tr_dc_def tr_set_chars dotenv_config_def PROJECT_NAME_def)

section \<open>Properties of the launch script\<close>

lemma variables_assign: "variables (assign x v sh) = (variables sh)(x \<mapsto> v)"
  and exported_assign: "exported (assign x v sh) y = (exported sh y \<or> (allexport sh \<and> y = x))"
  and allexport_assign: "allexport (assign x v sh) = allexport sh"
  by (simp_all add: assign_def)

lemma variables_export: "variables (export xs sh) = variables sh"
  and exported_export: "exported (export xs sh) y = (exported sh y \<or> y \<in> set xs)"
  and allexport_export: "allexport (export xs sh) = allexport sh"
  by (simp_all add: export_def)

lemma var_cases: "x \<in> set [WALLET_NAME, WALLET_HOTKEY, WANDB_API_KEY, NETWORK, CUDA_DEVICE, DEBUG]
    \<or> x = NODE_TYPE \<or> x = COMPOSE_FILE"
  by (cases x) simp_all

lemma docker_run_Some:
  assumes "docker_run start stdin = Some l"
  shows "\<exists>nt wn wh wk nw cd db.
           shell_vars l = (variables start)(NODE_TYPE \<mapsto> nt, WALLET_NAME \<mapsto> wn,
             WALLET_HOTKEY \<mapsto> wh, WANDB_API_KEY \<mapsto> wk, NETWORK \<mapsto> nw,
             CUDA_DEVICE \<mapsto> cd, DEBUG \<mapsto> db,
             COMPOSE_FILE \<mapsto> ''docker/compose.'' @ nt @ ''.yml'')
         \<and> argv l = [''docker'', ''compose'', ''-f'', ''docker/compose.'' @ nt @ ''.yml'', ''up'', ''-d'']
         \<and> (\<forall>x. environ l x = (if exported start x \<or> allexport start
                 \<or> x \<in> set [WALLET_NAME, WALLET_HOTKEY, WANDB_API_KEY, NETWORK, CUDA_DEVICE, DEBUG]
               then shell_vars l x else None))"
proof -
  obtain o1 i1 where p1: "prompt_with_default ''Enter node type (miner/validator)'' ''miner'' stdin = (o1, i1)"
    by (cases "prompt_with_default ''Enter node type (miner/validator)'' ''miner'' stdin")
  from assms p1 obtain o2 i2 where p2: "prompt_required ''Enter wallet name'' i1 = Some (o2, i2)"
    by (cases "prompt_required ''Enter wallet name'' i1") (auto simp: docker_run_def Let_def)
  from assms p1 p2 obtain o3 i3 where p3: "prompt_required ''Enter wallet hotkey'' i2 = Some (o3, i3)"
    by (cases "prompt_required ''Enter wallet hotkey'' i2") (auto simp: docker_run_def Let_def)
  from assms p1 p2 p3 obtain o4 i4 where p4: "prompt_required ''Enter Weights & Biases API key'' i3 = Some (o4, i4)"
    by (cases "prompt_required ''Enter Weights & Biases API key'' i3") (auto simp: docker_run_def Let_def)
  obtain o5 i5 where p5: "prompt_with_default ''Enter network'' ''test'' i4 = (o5, i5)"
    by (cases "prompt_with_default ''Enter network'' ''test'' i4")
  obtain o6 i6 where p6: "prompt_with_default ''Enter CUDA device'' ''cuda:0'' i5 = (o6, i6)"
    by (cases "prompt_with_default ''Enter CUDA device'' ''cuda:0'' i5")
  obtain o7 i7 where p7: "prompt_with_default ''Enable debug mode? (true/false)'' ''false'' i6 = (o7, i7)"
    by (cases "prompt_with_default ''Enable debug mode? (true/false)'' ''false'' i6")
  define sh7 where "sh7 = export [WALLET_NAME, WALLET_HOTKEY, WANDB_API_KEY, NETWORK, CUDA_DEVICE, DEBUG]
     (assign DEBUG (cmd_subst o7) (assign CUDA_DEVICE (cmd_subst o6) (assign NETWORK (cmd_subst o5)
     (assign WANDB_API_KEY (cmd_subst o4) (assign WALLET_HOTKEY (cmd_subst o3)
     (assign WALLET_NAME (cmd_subst o2) (assign NODE_TYPE (cmd_subst o1) start)))))))"
  define sh8 where "sh8 = assign COMPOSE_FILE (''docker/compose.'' @ expand sh7 NODE_TYPE @ ''.yml'') sh7"
  have l: "Some l = Some \<lparr>shell_vars = variables sh8,
           argv = [''docker'', ''compose'', ''-f'', expand sh8 COMPOSE_FILE, ''up'', ''-d''],
           environ = child_env sh8\<rparr>"
    unfolding assms [symmetric] sh8_def sh7_def
    by (simp add: docker_run_def p1 p2 p3 p4 p5 p6 p7 Let_def)
  have n7: "expand sh7 NODE_TYPE = cmd_subst o1"
    by (simp add: sh7_def expand_def variables_assign variables_export)
  have v: "variables sh8 = (variables start)(NODE_TYPE \<mapsto> cmd_subst o1, WALLET_NAME \<mapsto> cmd_subst o2,
             WALLET_HOTKEY \<mapsto> cmd_subst o3, WANDB_API_KEY \<mapsto> cmd_subst o4, NETWORK \<mapsto> cmd_subst o5,
             CUDA_DEVICE \<mapsto> cmd_subst o6, DEBUG \<mapsto> cmd_subst o7,
             COMPOSE_FILE \<mapsto> ''docker/compose.'' @ cmd_subst o1 @ ''.yml'')"
    unfolding sh8_def variables_assign n7
    by (simp add: sh7_def variables_assign variables_export)
  have c: "expand sh8 COMPOSE_FILE = ''docker/compose.'' @ cmd_subst o1 @ ''.yml''"
    by (simp add: expand_def v)
  have a7: "allexport sh7 = allexport start"
    by (simp add: sh7_def allexport_assign allexport_export)
  have x: "exported sh8 x = (exported start x \<or> allexport start
                 \<or> x \<in> set [WALLET_NAME, WALLET_HOTKEY, WANDB_API_KEY, NETWORK, CUDA_DEVICE, DEBUG])" for x
  proof (cases "allexport start")
    case True
    then show ?thesis
      using var_cases [of x]
      by (auto simp add: sh8_def exported_assign a7 sh7_def exported_export allexport_assign allexport_export)
  next
    case False
    then show ?thesis
      by (simp add: sh8_def exported_assign a7) (simp add: sh7_def exported_export exported_assign allexport_assign allexport_export)
  qed
  from l have sv: "shell_vars l = variables sh8"
    and av: "argv l = [''docker'', ''compose'', ''-f'', expand sh8 COMPOSE_FILE, ''up'', ''-d'']"
    and ev: "environ l = child_env sh8" by simp_all
  have e: "environ l y = (if exported start y \<or> allexport start
                 \<or> y \<in> set [WALLET_NAME, WALLET_HOTKEY, WANDB_API_KEY, NETWORK, CUDA_DEVICE, DEBUG]
               then shell_vars l y else None)" for y
    unfolding ev sv child_env_def x ..
  show ?thesis
    by (rule exI [of _ "cmd_subst o1"], rule exI [of _ "cmd_subst o2"], rule exI [of _ "cmd_subst o3"],
        rule exI [of _ "cmd_subst o4"], rule exI [of _ "cmd_subst o5"], rule exI [of _ "cmd_subst o6"],
        rule exI [of _ "cmd_subst o7"], intro conjI allI, simp only: sv v, simp only: av c, rule e)
qed

lemma allexport_exports_node_type:
  "environ (the (docker_run (startup Map.empty True) ['''', ''w'', ''h'', ''k'', '''', '''', ''''])) NODE_TYPE
     = Some ''Enter node type (miner/validator) [miner]: miner''"
  by code_simp

lemma prompt_required_returns:
  "(prompt_required prompt stdin \<noteq> None) = (\<exists>response \<in> set stdin. response \<noteq> [])"
  by (induction stdin) auto

lemma bash_echo_n: "bash_echo [''-n'', prompt @ '': ''] = prompt @ '': ''"
proof -
  have "\<not> echo_option (prompt @ '': '')"
    by (cases prompt) (auto simp: echo_option_def)
  then show ?thesis by (simp add: bash_echo_def echo_option_def)
qed

lemma cmd_subst_keeps: "c \<noteq> CHR 0x0A \<Longrightarrow> cmd_subst (xs @ c # ys) \<noteq> []"
proof -
  assume c: "c \<noteq> CHR 0x0A"
  have "dropWhile (\<lambda>c. c = CHR 0x0A) (rev ys @ c # rev xs) \<noteq> []"
    using c by (simp add: dropWhile_append)
  then show ?thesis by (simp add: cmd_subst_def)
qed

lemma prompt_required_nonempty:
  "prompt_required prompt stdin = Some (out, rest) \<Longrightarrow> cmd_subst out \<noteq> []"
proof -
  assume a: "prompt_required prompt stdin = Some (out, rest)"
  have "\<exists>tl. out = prompt @ CHR '':'' # tl"
    using a
  proof (induction stdin arbitrary: out rest)
    case Nil then show ?case by simp
  next
    case (Cons r rs)
    then show ?case by (auto simp: bash_echo_n split: if_splits)
  qed
  then obtain tl where "out = prompt @ CHR '':'' # tl" by blast
  then show ?thesis using cmd_subst_keeps [of "CHR '':''" prompt tl] by simp
qed

section \<open>The claims about the restart tasks\<close>



text \<open>
  Claim C2. For a role \<open>R\<close> whose hotkey list is supplied with \<open>N\<close> entries, the
  commands the task issues are, in this order, exactly
  \<open>pm2 restart ecosystem.config.js --only "<Prefix R><i>"\<close> for \<open>i = 1, ..., N\<close>, each run
  in the directory \<open>templar_path\<close>, relative to which the configuration file is named;
  \<open>Prefix miner = TM\<close>, \<open>Prefix validator = TV\<close>, \<open>Prefix aggregator = TA\<close>.
\<close>

theorem restart_directive_form:
  assumes "role_hotkeys R ivars = Some hotkeys" and "length hotkeys = N"
  shows "directives (restart_role R ivars)
           = map (\<lambda>i. \<lparr>shell = ''pm2 restart ecosystem.config.js --only \"'' @ Prefix R @ jinja_str i @ ''\"'',
                        chdir = templar_path ivars\<rparr>) [1 ..< Suc N]
       \<and> Prefix miner = ''TM'' \<and> Prefix validator = ''TV'' \<and> Prefix aggregator = ''TA''"
proof (cases R)
  case miner
  with assms show ?thesis by (simp add: restart_miner_def loop_task_guarded)
next
  case validator
  with assms show ?thesis by (simp add: restart_validator_def loop_task_guarded)
next
  case aggregator
  with assms show ?thesis by (auto simp: restart_aggregator_def loop_task_guarded)
qed

theorem restart_directive_form_witness:
  "role_hotkeys miner \<lparr>templar_path = ''/root/templar'', validator_hotkeys = Some [''V1'', ''V2''],
       aggregator_hotkeys = Some [''A1''],
       miner_hotkeys = Some [''M1'', ''M2'', ''M3'', ''M4'', ''M5'', ''M6'', ''M7'', ''M8'', ''M9'', ''M10'', ''M11'']\<rparr>
     = Some [''M1'', ''M2'', ''M3'', ''M4'', ''M5'', ''M6'', ''M7'', ''M8'', ''M9'', ''M10'', ''M11'']
   \<and> directives (restart_role miner \<lparr>templar_path = ''/root/templar'', validator_hotkeys = Some [''V1'', ''V2''],
       aggregator_hotkeys = Some [''A1''],
       miner_hotkeys = Some [''M1'', ''M2'', ''M3'', ''M4'', ''M5'', ''M6'', ''M7'', ''M8'', ''M9'', ''M10'', ''M11'']\<rparr>)
     = [\<lparr>shell = ''pm2 restart ecosystem.config.js --only \"TM1\"'', chdir = ''/root/templar''\<rparr>,
        \<lparr>shell = ''pm2 restart ecosystem.config.js --only \"TM2\"'', chdir = ''/root/templar''\<rparr>,
        \<lparr>shell = ''pm2 restart ecosystem.config.js --only \"TM3\"'', chdir = ''/root/templar''\<rparr>,
        \<lparr>shell = ''pm2 restart ecosystem.config.js --only \"TM4\"'', chdir = ''/root/templar''\<rparr>,
        \<lparr>shell = ''pm2 restart ecosystem.config.js --only \"TM5\"'', chdir = ''/root/templar''\<rparr>,
        \<lparr>shell = ''pm2 restart ecosystem.config.js --only \"TM6\"'', chdir = ''/root/templar''\<rparr>,
        \<lparr>shell = ''pm2 restart ecosystem.config.js --only \"TM7\"'', chdir = ''/root/templar''\<rparr>,
        \<lparr>shell = ''pm2 restart ecosystem.config.js --only \"TM8\"'', chdir = ''/root/templar''\<rparr>,
        \<lparr>shell = ''pm2 restart ecosystem.config.js --only \"TM9\"'', chdir = ''/root/templar''\<rparr>,
        \<lparr>shell = ''pm2 restart ecosystem.config.js --only \"TM10\"'', chdir = ''/root/templar''\<rparr>,
        \<lparr>shell = ''pm2 restart ecosystem.config.js --only \"TM11\"'', chdir = ''/root/templar''\<rparr>]
   \<and> directives (restart_role validator \<lparr>templar_path = ''/root/templar'', validator_hotkeys = Some [''V1'', ''V2''],
       aggregator_hotkeys = Some [''A1''],
       miner_hotkeys = Some [''M1'', ''M2'', ''M3'', ''M4'', ''M5'', ''M6'', ''M7'', ''M8'', ''M9'', ''M10'', ''M11'']\<rparr>)
     = [\<lparr>shell = ''pm2 restart ecosystem.config.js --only \"TV1\"'', chdir = ''/root/templar''\<rparr>,
        \<lparr>shell = ''pm2 restart ecosystem.config.js --only \"TV2\"'', chdir = ''/root/templar''\<rparr>]
   \<and> directives (restart_role aggregator \<lparr>templar_path = ''/root/templar'', validator_hotkeys = Some [''V1'', ''V2''],
       aggregator_hotkeys = Some [''A1''],
       miner_hotkeys = Some [''M1'', ''M2'', ''M3'', ''M4'', ''M5'', ''M6'', ''M7'', ''M8'', ''M9'', ''M10'', ''M11'']\<rparr>)
     = [\<lparr>shell = ''pm2 restart ecosystem.config.js --only \"TA1\"'', chdir = ''/root/templar''\<rparr>]"
proof -
  let ?v = "\<lparr>templar_path = ''/root/templar'', validator_hotkeys = Some [''V1'', ''V2''],
       aggregator_hotkeys = Some [''A1''],
       miner_hotkeys = Some [''M1'', ''M2'', ''M3'', ''M4'', ''M5'', ''M6'', ''M7'', ''M8'', ''M9'', ''M10'', ''M11'']\<rparr>"
  have hm: "role_hotkeys miner ?v = Some [''M1'', ''M2'', ''M3'', ''M4'', ''M5'', ''M6'', ''M7'', ''M8'', ''M9'', ''M10'', ''M11'']"
    and hv: "role_hotkeys validator ?v = Some [''V1'', ''V2'']"
    and ha: "role_hotkeys aggregator ?v = Some [''A1'']" by simp_all
  have lm: "length [''M1'', ''M2'', ''M3'', ''M4'', ''M5'', ''M6'', ''M7'', ''M8'', ''M9'', ''M10'', ''M11''] = (11::nat)"
    and lv: "length [''V1'', ''V2''] = (2::nat)" and la: "length [''A1''] = (1::nat)" by simp_all
  have tp: "templar_path ?v = ''/root/templar''" by simp
  have em: "map (\<lambda>i. \<lparr>shell = ''pm2 restart ecosystem.config.js --only \"'' @ Prefix miner @ jinja_str i @ ''\"'',
                        chdir = ''/root/templar''\<rparr>) [1 ..< Suc 11]
     = [\<lparr>shell = ''pm2 restart ecosystem.config.js --only \"TM1\"'', chdir = ''/root/templar''\<rparr>,
        \<lparr>shell = ''pm2 restart ecosystem.config.js --only \"TM2\"'', chdir = ''/root/templar''\<rparr>,
        \<lparr>shell = ''pm2 restart ecosystem.config.js --only \"TM3\"'', chdir = ''/root/templar''\<rparr>,
        \<lparr>shell = ''pm2 restart ecosystem.config.js --only \"TM4\"'', chdir = ''/root/templar''\<rparr>,
        \<lparr>shell = ''pm2 restart ecosystem.config.js --only \"TM5\"'', chdir = ''/root/templar''\<rparr>,
        \<lparr>shell = ''pm2 restart ecosystem.config.js --only \"TM6\"'', chdir = ''/root/templar''\<rparr>,
        \<lparr>shell = ''pm2 restart ecosystem.config.js --only \"TM7\"'', chdir = ''/root/templar''\<rparr>,
        \<lparr>shell = ''pm2 restart ecosystem.config.js --only \"TM8\"'', chdir = ''/root/templar''\<rparr>,
        \<lparr>shell = ''pm2 restart ecosystem.config.js --only \"TM9\"'', chdir = ''/root/templar''\<rparr>,
        \<lparr>shell = ''pm2 restart ecosystem.config.js --only \"TM10\"'', chdir = ''/root/templar''\<rparr>,
        \<lparr>shell = ''pm2 restart ecosystem.config.js --only \"TM11\"'', chdir = ''/root/templar''\<rparr>]"
    by code_simp
  have ev: "map (\<lambda>i. \<lparr>shell = ''pm2 restart ecosystem.config.js --only \"'' @ Prefix validator @ jinja_str i @ ''\"'',
                        chdir = ''/root/templar''\<rparr>) [1 ..< Suc 2]
     = [\<lparr>shell = ''pm2 restart ecosystem.config.js --only \"TV1\"'', chdir = ''/root/templar''\<rparr>,
        \<lparr>shell = ''pm2 restart ecosystem.config.js --only \"TV2\"'', chdir = ''/root/templar''\<rparr>]"
    by code_simp
  have ea: "map (\<lambda>i. \<lparr>shell = ''pm2 restart ecosystem.config.js --only \"'' @ Prefix aggregator @ jinja_str i @ ''\"'',
                        chdir = ''/root/templar''\<rparr>) [1 ..< Suc 1]
     = [\<lparr>shell = ''pm2 restart ecosystem.config.js --only \"TA1\"'', chdir = ''/root/templar''\<rparr>]"
    by code_simp
  note m = restart_directive_form [OF hm lm, THEN conjunct1, unfolded tp em]
  note v = restart_directive_form [OF hv lv, THEN conjunct1, unfolded tp ev]
  note a = restart_directive_form [OF ha la, THEN conjunct1, unfolded tp ea]
  show ?thesis by (intro conjI) (rule hm, rule m, rule v, rule a)
qed

section \<open>The claims about the configuration\<close>

text \<open>
  Claim C9. A load returns exactly when the random device has delivered five bytes among
  \<open>a-z0-9\<close> (four for the line, the fifth makes \<open>fold\<close> end the line); the run identifier
  it puts into every entry is then \<open>test_\<close> followed by exactly four characters, each a
  lowercase letter or a digit.
\<close>

theorem run_identifier_format:
  "(\<exists>cfg. ecosystem_config dotenv_file os_env urandom = Some cfg)
      = (5 \<le> length (filter (\<lambda>c. c \<in> set ''abcdefghijklmnopqrstuvwxyz0123456789'') urandom))
   \<and> (\<forall>cfg. ecosystem_config dotenv_file os_env urandom = Some cfg \<longrightarrow>
        (\<exists>sfx. length sfx = 4 \<and> set sfx \<subseteq> set ''abcdefghijklmnopqrstuvwxyz0123456789''
           \<and> RANDOM_SUFFIX urandom = Some sfx
           \<and> map (\<lambda>e. env e ''PROJECT_NAME'') cfg = replicate 6 (Some (''test_'' @ sfx))))"
proof (intro conjI allI impI)
  show "(\<exists>cfg. ecosystem_config dotenv_file os_env urandom = Some cfg)
      = (5 \<le> length (filter (\<lambda>c. c \<in> set ''abcdefghijklmnopqrstuvwxyz0123456789'') urandom))"
    unfolding ecosystem_config_def Let_def RANDOM_SUFFIX_eq tr_dc_def tr_set_chars by simp
next
  fix cfg assume "ecosystem_config dotenv_file os_env urandom = Some cfg"
  then obtain sfx where r: "RANDOM_SUFFIX urandom = Some sfx"
    and cfg: "cfg = apps (dotenv_config dotenv_file os_env) (PROJECT_NAME sfx)"
    using ecosystem_config_Some by blast
  from r have "sfx \<in> suffix_space" by (rule RANDOM_SUFFIX_in_space)
  then have "length sfx = 4" "set sfx \<subseteq> set ''abcdefghijklmnopqrstuvwxyz0123456789''"
    unfolding suffix_space_def tr_set_chars by auto
  moreover have "map (\<lambda>e. env e ''PROJECT_NAME'') cfg = replicate 6 (Some (''test_'' @ sfx))"
    unfolding cfg apps_env_list PROJECT_NAME_def ..
  ultimately show "\<exists>sfx. length sfx = 4 \<and> set sfx \<subseteq> set ''abcdefghijklmnopqrstuvwxyz0123456789''
           \<and> RANDOM_SUFFIX urandom = Some sfx
           \<and> map (\<lambda>e. env e ''PROJECT_NAME'') cfg = replicate 6 (Some (''test_'' @ sfx))"
    using r by blast
qed

theorem run_identifier_format_witness:
  "ecosystem_config (Some [''WANDB_API_KEY'' \<mapsto> ''k'']) [''HOME'' \<mapsto> ''/root''] ''k3-x9z''
     = Some (apps ([''WANDB_API_KEY'' \<mapsto> ''k''] ++ [''HOME'' \<mapsto> ''/root'']) ''test_k3x9'')
   \<and> RANDOM_SUFFIX ''k3-x9z'' = Some ''k3x9''
   \<and> map (\<lambda>e. env e ''PROJECT_NAME'')
         (apps ([''WANDB_API_KEY'' \<mapsto> ''k''] ++ [''HOME'' \<mapsto> ''/root'']) ''test_k3x9'')
       = replicate 6 (Some ''test_k3x9'')"
proof -
  have r: "RANDOM_SUFFIX ''k3-x9z'' = Some ''k3x9''"
    by (simp add: RANDOM_SUFFIX_eq tr_dc_def tr_set_chars)
  from run_identifier_format [of "Some [''WANDB_API_KEY'' \<mapsto> ''k'']" "[''HOME'' \<mapsto> ''/root'']" "''k3-x9z''"]
    load_concrete r
  show ?thesis by simp
qed

text \<open>
  Claim C3. Within one load all six entries carry the same value under \<open>PROJECT_NAME\<close>,
  the one identifier computed from the one output of the pipeline. The identifiers of two
  loads are equal exactly when the two pipeline outputs are equal; a pipeline output is any
  of the \<open>36 ^ 4\<close> suffixes, so two independent uniform draws coincide with probability
  \<open>1 / 1679616\<close>.
\<close>

theorem shared_run_identifier:
  assumes "ecosystem_config dotenv_file1 os_env1 urandom1 = Some cfg1"
    and "ecosystem_config dotenv_file2 os_env2 urandom2 = Some cfg2"
  shows "\<exists>rid1 rid2.
           map (\<lambda>e. env e ''PROJECT_NAME'') cfg1 = replicate 6 (Some rid1)
         \<and> map (\<lambda>e. env e ''PROJECT_NAME'') cfg2 = replicate 6 (Some rid2)
         \<and> (rid1 = rid2) = (RANDOM_SUFFIX urandom1 = RANDOM_SUFFIX urandom2)
         \<and> {s. \<exists>urandom. RANDOM_SUFFIX urandom = Some s} = suffix_space
         \<and> collision_probability = 1 / 1679616"
proof -
  from assms(1) obtain s1 where r1: "RANDOM_SUFFIX urandom1 = Some s1"
    and c1: "cfg1 = apps (dotenv_config dotenv_file1 os_env1) (PROJECT_NAME s1)"
    using ecosystem_config_Some by blast
  from assms(2) obtain s2 where r2: "RANDOM_SUFFIX urandom2 = Some s2"
    and c2: "cfg2 = apps (dotenv_config dotenv_file2 os_env2) (PROJECT_NAME s2)"
    using ecosystem_config_Some by blast
  have "map (\<lambda>e. env e ''PROJECT_NAME'') cfg1 = replicate 6 (Some (PROJECT_NAME s1))"
    unfolding c1 by (rule apps_env_list)
  moreover have "map (\<lambda>e. env e ''PROJECT_NAME'') cfg2 = replicate 6 (Some (PROJECT_NAME s2))"
    unfolding c2 by (rule apps_env_list)
  moreover have "(PROJECT_NAME s1 = PROJECT_NAME s2) = (RANDOM_SUFFIX urandom1 = RANDOM_SUFFIX urandom2)"
    by (simp add: r1 r2 PROJECT_NAME_def)
  moreover have "{s. \<exists>urandom. RANDOM_SUFFIX urandom = Some s} = suffix_space"
    using RANDOM_SUFFIX_in_space RANDOM_SUFFIX_onto by blast
  ultimately show ?thesis using collision_probability_value by blast
qed

theorem shared_run_identifier_witness:
  "ecosystem_config (Some [''WANDB_API_KEY'' \<mapsto> ''k'']) [''HOME'' \<mapsto> ''/root''] ''k3-x9z''
     = Some (apps ([''WANDB_API_KEY'' \<mapsto> ''k''] ++ [''HOME'' \<mapsto> ''/root'']) ''test_k3x9'')
   \<and> ecosystem_config None Map.empty ''QQ7m m0a!b''
     = Some (apps Map.empty ''test_7mm0'')
   \<and> (\<exists>rid1 rid2.
         map (\<lambda>e. env e ''PROJECT_NAME'')
           (apps ([''WANDB_API_KEY'' \<mapsto> ''k''] ++ [''HOME'' \<mapsto> ''/root'']) ''test_k3x9'')
           = replicate 6 (Some rid1)
       \<and> map (\<lambda>e. env e ''PROJECT_NAME'') (apps Map.empty ''test_7mm0'') = replicate 6 (Some rid2)
       \<and> rid1 \<noteq> rid2)"
proof -
  have l2: "ecosystem_config None Map.empty ''QQ7m m0a!b'' = Some (apps Map.empty ''test_7mm0'')"
    by (simp add: ecosystem_config_def RANDOM_SUFFIX_eq tr_dc_def tr_set_chars dotenv_config_def
        PROJECT_NAME_def)
  have r: "RANDOM_SUFFIX ''k3-x9z'' \<noteq> RANDOM_SUFFIX ''QQ7m m0a!b''"
    by (simp add: RANDOM_SUFFIX_eq tr_dc_def tr_set_chars)
  from shared_run_identifier [OF load_concrete l2] r load_concrete l2 show ?thesis by auto
qed

text \<open>
  Claim C8. The environment of every entry is \<open>process.env\<close>, as it is when the object is
  built, with the key \<open>PROJECT_NAME\<close> set to the run identifier: every other key has the
  value \<open>process.env\<close> gives it, and every variable of the environment the process was
  started with, other than \<open>PROJECT_NAME\<close>, is passed through with its value.
\<close>

theorem env_frame:
  assumes "ecosystem_config dotenv_file os_env urandom = Some cfg" and "e \<in> set cfg"
  shows "\<exists>sfx. RANDOM_SUFFIX urandom = Some sfx
         \<and> env e = (dotenv_config dotenv_file os_env)(''PROJECT_NAME'' \<mapsto> PROJECT_NAME sfx)
         \<and> (\<forall>k. k \<noteq> ''PROJECT_NAME'' \<longrightarrow> env e k = dotenv_config dotenv_file os_env k)
         \<and> (\<forall>k v. k \<noteq> ''PROJECT_NAME'' \<longrightarrow> os_env k = Some v \<longrightarrow> env e k = Some v)"
proof -
  from assms(1) obtain sfx where r: "RANDOM_SUFFIX urandom = Some sfx"
    and cfg: "cfg = apps (dotenv_config dotenv_file os_env) (PROJECT_NAME sfx)"
    using ecosystem_config_Some by blast
  from assms(2) have e: "env e = (dotenv_config dotenv_file os_env)(''PROJECT_NAME'' \<mapsto> PROJECT_NAME sfx)"
    unfolding cfg by (rule apps_env)
  have "os_env k = Some v \<Longrightarrow> dotenv_config dotenv_file os_env k = Some v" for k v
    by (cases dotenv_file) (simp_all add: dotenv_config_def)
  with r e show ?thesis by auto
qed

theorem env_frame_witness:
  "ecosystem_config (Some [''WANDB_API_KEY'' \<mapsto> ''k'']) [''HOME'' \<mapsto> ''/root''] ''k3-x9z''
     = Some (apps ([''WANDB_API_KEY'' \<mapsto> ''k''] ++ [''HOME'' \<mapsto> ''/root'']) ''test_k3x9'')
   \<and> hd (apps ([''WANDB_API_KEY'' \<mapsto> ''k''] ++ [''HOME'' \<mapsto> ''/root'']) ''test_k3x9'')
       \<in> set (apps ([''WANDB_API_KEY'' \<mapsto> ''k''] ++ [''HOME'' \<mapsto> ''/root'']) ''test_k3x9'')
   \<and> env (hd (apps ([''WANDB_API_KEY'' \<mapsto> ''k''] ++ [''HOME'' \<mapsto> ''/root'']) ''test_k3x9'')) ''HOME''
       = Some ''/root''
   \<and> env (hd (apps ([''WANDB_API_KEY'' \<mapsto> ''k''] ++ [''HOME'' \<mapsto> ''/root'']) ''test_k3x9'')) ''PROJECT_NAME''
       = Some ''test_k3x9''"
proof -
  let ?cfg = "apps ([''WANDB_API_KEY'' \<mapsto> ''k''] ++ [''HOME'' \<mapsto> ''/root'']) ''test_k3x9''"
  have m: "hd ?cfg \<in> set ?cfg" by (simp add: apps_def)
  have r: "RANDOM_SUFFIX ''k3-x9z'' = Some ''k3x9''"
    by (simp add: RANDOM_SUFFIX_eq tr_dc_def tr_set_chars)
  have h: "[''HOME'' \<mapsto> ''/root''] ''HOME'' = Some ''/root''" by simp
  from env_frame [OF load_concrete m] r obtain
    a: "\<forall>k v. k \<noteq> ''PROJECT_NAME'' \<longrightarrow> [''HOME'' \<mapsto> ''/root''] k = Some v \<longrightarrow> env (hd ?cfg) k = Some v"
    and b: "env (hd ?cfg) = (dotenv_config (Some [''WANDB_API_KEY'' \<mapsto> ''k'']) [''HOME'' \<mapsto> ''/root''])(''PROJECT_NAME'' \<mapsto> PROJECT_NAME ''k3x9'')"
    by auto
  from a h have "env (hd ?cfg) ''HOME'' = Some ''/root''" by simp
  moreover from b have "env (hd ?cfg) ''PROJECT_NAME'' = Some ''test_k3x9''"
    by (simp add: PROJECT_NAME_def)
  ultimately show ?thesis using load_concrete m by simp
qed

text \<open>
  Claim C7. The names of the entries are pairwise distinct, and for every role the names
  of its entries are prefix + 1, ..., prefix + n in this order, \<open>n\<close> being the number of
  entries of the role (5 miners, 1 validator, no aggregator); every entry belongs to one
  of the three roles.
\<close>

theorem names_unique_contiguous:
  assumes "ecosystem_config dotenv_file os_env urandom = Some cfg"
  shows "distinct (map name cfg)
       \<and> (\<forall>R. map name (role_entries R cfg)
               = map (\<lambda>i. Prefix R @ jinja_str i) [1 ..< Suc (length (role_entries R cfg))])
       \<and> cfg = role_entries miner cfg @ role_entries validator cfg @ role_entries aggregator cfg
       \<and> map (\<lambda>R. length (role_entries R cfg)) [miner, validator, aggregator] = [5, 1, 0]"
proof -
  from assms obtain sfx where cfg: "cfg = apps (dotenv_config dotenv_file os_env) (PROJECT_NAME sfx)"
    using ecosystem_config_Some by blast
  have d: "distinct (map name cfg)" unfolding cfg apps_names by simp
  have nm: "map name (role_entries miner cfg) = [''TM1'', ''TM2'', ''TM3'', ''TM4'', ''TM5'']"
    and nv: "map name (role_entries validator cfg) = [''TV1'']"
    and na: "map name (role_entries aggregator cfg) = []"
    by (simp_all add: cfg apps_def role_entries_def)
  have l: "map (\<lambda>R. length (role_entries R cfg)) [miner, validator, aggregator] = [5, 1, 0]"
    by (simp add: cfg apps_def role_entries_def)
  then have lm: "length (role_entries miner cfg) = 5" and lv: "length (role_entries validator cfg) = 1"
    and la: "length (role_entries aggregator cfg) = 0" by simp_all
  have em: "map (\<lambda>i. Prefix miner @ jinja_str i) [1 ..< Suc 5] = [''TM1'', ''TM2'', ''TM3'', ''TM4'', ''TM5'']"
    and ev: "map (\<lambda>i. Prefix validator @ jinja_str i) [1 ..< Suc 1] = [''TV1'']"
    and ea: "map (\<lambda>i. Prefix aggregator @ jinja_str i) [1 ..< Suc 0] = []"
    by code_simp+
  have m: "map name (role_entries R cfg)
               = map (\<lambda>i. Prefix R @ jinja_str i) [1 ..< Suc (length (role_entries R cfg))]" for R
  proof (cases R)
    case miner show ?thesis unfolding miner lm nm em ..
  next
    case validator show ?thesis unfolding validator lv nv ev ..
  next
    case aggregator show ?thesis unfolding aggregator la na ea ..
  qed
  have s: "cfg = role_entries miner cfg @ role_entries validator cfg @ role_entries aggregator cfg"
    by (simp add: cfg apps_def role_entries_def)
  from d m s l show ?thesis by blast
qed

theorem names_unique_contiguous_witness:
  "ecosystem_config (Some [''WANDB_API_KEY'' \<mapsto> ''k'']) [''HOME'' \<mapsto> ''/root''] ''k3-x9z''
     = Some (apps ([''WANDB_API_KEY'' \<mapsto> ''k''] ++ [''HOME'' \<mapsto> ''/root'']) ''test_k3x9'')
   \<and> distinct (map name (apps ([''WANDB_API_KEY'' \<mapsto> ''k''] ++ [''HOME'' \<mapsto> ''/root'']) ''test_k3x9''))
   \<and> map name (role_entries miner (apps ([''WANDB_API_KEY'' \<mapsto> ''k''] ++ [''HOME'' \<mapsto> ''/root'']) ''test_k3x9''))
       = [''TM1'', ''TM2'', ''TM3'', ''TM4'', ''TM5'']"
proof -
  let ?cfg = "apps ([''WANDB_API_KEY'' \<mapsto> ''k''] ++ [''HOME'' \<mapsto> ''/root'']) ''test_k3x9''"
  have e: "map (\<lambda>i. Prefix miner @ jinja_str i) [1 ..< Suc 5] = [''TM1'', ''TM2'', ''TM3'', ''TM4'', ''TM5'']"
    by code_simp
  from names_unique_contiguous [OF load_concrete]
  have d: "distinct (map name ?cfg)"
    and m: "\<forall>R. map name (role_entries R ?cfg)
               = map (\<lambda>i. Prefix R @ jinja_str i) [1 ..< Suc (length (role_entries R ?cfg))]"
    and l: "map (\<lambda>R. length (role_entries R ?cfg)) [miner, validator, aggregator] = [5, 1, 0]"
    by blast+
  from l have lm: "length (role_entries miner ?cfg) = 5" by simp
  from m have "map name (role_entries miner ?cfg)
      = map (\<lambda>i. Prefix miner @ jinja_str i) [1 ..< Suc (length (role_entries miner ?cfg))]" ..
  then have "map name (role_entries miner ?cfg) = [''TM1'', ''TM2'', ''TM3'', ''TM4'', ''TM5'']"
    unfolding lm e .
  with d load_concrete show ?thesis by simp
qed

text \<open>
  Claim C6. Exactly one entry, \<open>TM4\<close>, has an argument string in which a flag follows
  the preceding token without a blank: the closing quote of the project name is directly
  followed by \<open>--local\<close>. Cut at its blanks, every other argument string is the expected
  sequence of flags and values, ending with the quoted project name and \<open>--local\<close> as two
  tokens.
\<close>

theorem one_missing_separator:
  assumes "ecosystem_config dotenv_file os_env urandom = Some cfg"
  shows "map name (filter (\<lambda>e. missing_separator (args e)) cfg) = [''TM4'']
       \<and> (\<exists>rid. map (\<lambda>e. env e ''PROJECT_NAME'') cfg = replicate 6 (Some rid)
            \<and> map (\<lambda>e. split_blanks (args e)) cfg =
                 [flag_value_tokens ''M1'' ''cuda:2'' [''\"'' @ rid @ ''\"'', ''--local''],
                  flag_value_tokens ''M2'' ''cuda:3'' [''\"'' @ rid @ ''\"'', ''--local''],
                  flag_value_tokens ''M3'' ''cuda:4'' [''\"'' @ rid @ ''\"'', ''--local''],
                  flag_value_tokens ''M4'' ''cuda:5'' [''\"'' @ rid @ ''\"--local''],
                  flag_value_tokens ''M5'' ''cuda:6'' [''\"'' @ rid @ ''\"'', ''--local''],
                  flag_value_tokens ''V1'' ''cuda:1'' [''\"'' @ rid @ ''\"'', ''--local'']])"
proof -
  from assms obtain sfx where r: "RANDOM_SUFFIX urandom = Some sfx"
    and cfg: "cfg = apps (dotenv_config dotenv_file os_env) (PROJECT_NAME sfx)"
    using ecosystem_config_Some by blast
  from r have "sfx \<in> suffix_space" by (rule RANDOM_SUFFIX_in_space)
  then obtain a b c d where sfx: "sfx = [a, b, c, d]" and sub: "{a, b, c, d} \<subseteq> set tr_set"
    using suffix_space_chars by blast
  from sub have dash: "a \<noteq> CHR ''-''" "b \<noteq> CHR ''-''" "c \<noteq> CHR ''-''" "d \<noteq> CHR ''-''"
    and blank: "a \<noteq> CHR '' ''" "b \<noteq> CHR '' ''" "c \<noteq> CHR '' ''" "d \<noteq> CHR '' ''"
    using tr_set_plain by auto
  have ms: "map name (filter (\<lambda>e. missing_separator (args e)) cfg) = [''TM4'']"
    unfolding cfg sfx using dash by (rule apps_missing_separator)
  have ev: "map (\<lambda>e. env e ''PROJECT_NAME'') cfg = replicate 6 (Some (PROJECT_NAME sfx))"
    unfolding cfg by (rule apps_env_list)
  have tk: "map (\<lambda>e. split_blanks (args e)) cfg =
                 [flag_value_tokens ''M1'' ''cuda:2'' [''\"'' @ PROJECT_NAME sfx @ ''\"'', ''--local''],
                  flag_value_tokens ''M2'' ''cuda:3'' [''\"'' @ PROJECT_NAME sfx @ ''\"'', ''--local''],
                  flag_value_tokens ''M3'' ''cuda:4'' [''\"'' @ PROJECT_NAME sfx @ ''\"'', ''--local''],
                  flag_value_tokens ''M4'' ''cuda:5'' [''\"'' @ PROJECT_NAME sfx @ ''\"--local''],
                  flag_value_tokens ''M5'' ''cuda:6'' [''\"'' @ PROJECT_NAME sfx @ ''\"'', ''--local''],
                  flag_value_tokens ''V1'' ''cuda:1'' [''\"'' @ PROJECT_NAME sfx @ ''\"'', ''--local'']]"
    unfolding cfg sfx using blank by (rule apps_tokens)
  show ?thesis
  proof (rule conjI)
    show "map name (filter (\<lambda>e. missing_separator (args e)) cfg) = [''TM4'']" by (rule ms)
  next
    show "\<exists>rid. map (\<lambda>e. env e ''PROJECT_NAME'') cfg = replicate 6 (Some rid)
            \<and> map (\<lambda>e. split_blanks (args e)) cfg =
                 [flag_value_tokens ''M1'' ''cuda:2'' [''\"'' @ rid @ ''\"'', ''--local''],
                  flag_value_tokens ''M2'' ''cuda:3'' [''\"'' @ rid @ ''\"'', ''--local''],
                  flag_value_tokens ''M3'' ''cuda:4'' [''\"'' @ rid @ ''\"'', ''--local''],
                  flag_value_tokens ''M4'' ''cuda:5'' [''\"'' @ rid @ ''\"--local''],
                  flag_value_tokens ''M5'' ''cuda:6'' [''\"'' @ rid @ ''\"'', ''--local''],
                  flag_value_tokens ''V1'' ''cuda:1'' [''\"'' @ rid @ ''\"'', ''--local'']]"
      by (rule exI [of _ "PROJECT_NAME sfx"], rule conjI, rule ev, rule tk)
  qed
qed

theorem one_missing_separator_witness:
  "ecosystem_config (Some [''WANDB_API_KEY'' \<mapsto> ''k'']) [''HOME'' \<mapsto> ''/root''] ''k3-x9z''
     = Some (apps ([''WANDB_API_KEY'' \<mapsto> ''k''] ++ [''HOME'' \<mapsto> ''/root'']) ''test_k3x9'')
   \<and> map name (filter (\<lambda>e. missing_separator (args e))
         (apps ([''WANDB_API_KEY'' \<mapsto> ''k''] ++ [''HOME'' \<mapsto> ''/root'']) ''test_k3x9'')) = [''TM4'']"
proof (rule conjI)
  show "ecosystem_config (Some [''WANDB_API_KEY'' \<mapsto> ''k'']) [''HOME'' \<mapsto> ''/root''] ''k3-x9z''
     = Some (apps ([''WANDB_API_KEY'' \<mapsto> ''k''] ++ [''HOME'' \<mapsto> ''/root'']) ''test_k3x9'')"
    by (rule load_concrete)
next
  from one_missing_separator [OF load_concrete]
  show "map name (filter (\<lambda>e. missing_separator (args e))
         (apps ([''WANDB_API_KEY'' \<mapsto> ''k''] ++ [''HOME'' \<mapsto> ''/root'']) ''test_k3x9'')) = [''TM4'']"
    by (rule conjunct1)
qed

section \<open>The claims about the launch script\<close>

text \<open>
  Claim C4. The failing input: an empty line at every optional prompt, \<open>w\<close>, \<open>h\<close> and
  \<open>k\<close> at the three required ones, in a shell that inherited none of the script's
  variables. The script reaches \<open>docker compose\<close>, and the value of \<open>NETWORK\<close>, in the
  shell and in the environment handed on, is not \<open>test\<close> but the text of the prompt
  followed by \<open>test\<close>: the command substitution has captured the prompt that the function
  writes to its standard output. The required \<open>WALLET_NAME\<close> holds its prompt in the same
  way.
\<close>

theorem network_blank_captures_prompt:
  "\<not> Option.is_none (docker_run (startup Map.empty False) ['''', ''w'', ''h'', ''k'', '''', '''', ''''])
   \<and> shell_vars (the (docker_run (startup Map.empty False) ['''', ''w'', ''h'', ''k'', '''', '''', ''''])) NETWORK
       = Some ''Enter network [test]: test''
   \<and> environ (the (docker_run (startup Map.empty False) ['''', ''w'', ''h'', ''k'', '''', '''', ''''])) NETWORK
       = Some ''Enter network [test]: test''
   \<and> shell_vars (the (docker_run (startup Map.empty False) ['''', ''w'', ''h'', ''k'', '''', '''', ''''])) WALLET_NAME
       = Some ''Enter wallet name: w''"
  by code_simp

text \<open>
  Claim C5, as the claim states it, fails: in a shell that inherited none of the script's
  variables and runs without \<open>allexport\<close>, the script hands \<open>docker compose\<close> an
  environment without \<open>NODE_TYPE\<close>.
\<close>

theorem node_type_not_exported:
  "\<not> Option.is_none (docker_run (startup Map.empty False) ['''', ''w'', ''h'', ''k'', '''', '''', ''''])
   \<and> environ (the (docker_run (startup Map.empty False) ['''', ''w'', ''h'', ''k'', '''', '''', ''''])) NODE_TYPE = None"
  by code_simp

text \<open>
  Claim C5, amended. Whenever the script reaches \<open>docker compose\<close>, from whatever state
  of the shell: the six variables \<open>WALLET_NAME\<close>, \<open>WALLET_HOTKEY\<close>, \<open>WANDB_API_KEY\<close>,
  \<open>NETWORK\<close>, \<open>CUDA_DEVICE\<close> and \<open>DEBUG\<close> are set and are in the environment of the
  command with their shell values; \<open>NODE_TYPE\<close> is set too, but the script does not export
  it: it is in that environment exactly when it already carried the export attribute when
  the script began, or the shell runs with \<open>allexport\<close>.
\<close>

theorem exported_variables:
  assumes "docker_run start stdin = Some l"
  shows "(\<forall>x \<in> set [WALLET_NAME, WALLET_HOTKEY, WANDB_API_KEY, NETWORK, CUDA_DEVICE, DEBUG].
            environ l x = shell_vars l x \<and> shell_vars l x \<noteq> None)
       \<and> shell_vars l NODE_TYPE \<noteq> None
       \<and> environ l NODE_TYPE
            = (if exported start NODE_TYPE \<or> allexport start then shell_vars l NODE_TYPE else None)"
proof -
  from docker_run_Some [OF assms] obtain nt wn wh wk nw cd db where
    v: "shell_vars l = (variables start)(NODE_TYPE \<mapsto> nt, WALLET_NAME \<mapsto> wn,
             WALLET_HOTKEY \<mapsto> wh, WANDB_API_KEY \<mapsto> wk, NETWORK \<mapsto> nw,
             CUDA_DEVICE \<mapsto> cd, DEBUG \<mapsto> db,
             COMPOSE_FILE \<mapsto> ''docker/compose.'' @ nt @ ''.yml'')"
    and e: "\<forall>x. environ l x = (if exported start x \<or> allexport start
                 \<or> x \<in> set [WALLET_NAME, WALLET_HOTKEY, WANDB_API_KEY, NETWORK, CUDA_DEVICE, DEBUG]
               then shell_vars l x else None)"
    by blast
  have six: "\<forall>x \<in> set [WALLET_NAME, WALLET_HOTKEY, WANDB_API_KEY, NETWORK, CUDA_DEVICE, DEBUG].
            environ l x = shell_vars l x \<and> shell_vars l x \<noteq> None"
    using e by (simp add: v)
  have nt: "environ l NODE_TYPE
            = (if exported start NODE_TYPE \<or> allexport start then shell_vars l NODE_TYPE else None)"
    using e by simp
  have "shell_vars l NODE_TYPE \<noteq> None" by (simp add: v)
  with six nt show ?thesis by blast
qed

theorem exported_variables_witness:
  "\<exists>l. docker_run (startup Map.empty False) ['''', ''w'', ''h'', ''k'', '''', '''', ''''] = Some l
      \<and> environ l WALLET_NAME = Some ''Enter wallet name: w''
      \<and> environ l WALLET_HOTKEY = Some ''Enter wallet hotkey: h''
      \<and> environ l WANDB_API_KEY = Some ''Enter Weights & Biases API key: k''
      \<and> environ l NETWORK \<noteq> None \<and> environ l CUDA_DEVICE \<noteq> None \<and> environ l DEBUG \<noteq> None
      \<and> shell_vars l NODE_TYPE \<noteq> None
      \<and> environ l NODE_TYPE = None"
proof -
  let ?r = "docker_run (startup Map.empty False) ['''', ''w'', ''h'', ''k'', '''', '''', '''']"
  have "\<not> Option.is_none ?r"
    and w: "shell_vars (the ?r) WALLET_NAME = Some ''Enter wallet name: w''"
           "shell_vars (the ?r) WALLET_HOTKEY = Some ''Enter wallet hotkey: h''"
           "shell_vars (the ?r) WANDB_API_KEY = Some ''Enter Weights & Biases API key: k''"
    by code_simp+
  then obtain l where l: "?r = Some l" by (auto simp: Option.is_none_def)
  have s: "\<not> exported (startup Map.empty False) NODE_TYPE" "\<not> allexport (startup Map.empty False)"
    by (simp_all add: startup_def)
  from exported_variables [OF l] w s l show ?thesis by auto
qed

text \<open>
  Claim C10. The failing inputs: an empty line at the node-type prompt, and the line
  \<open>validator\<close>. The file given to \<open>docker compose\<close> is neither
  \<open>docker/compose.miner.yml\<close> nor \<open>docker/compose.validator.yml\<close>: the captured prompt
  stands between \<open>compose.\<close> and the node type.
\<close>

theorem node_type_compose_file:
  "argv (the (docker_run (startup Map.empty False) ['''', ''w'', ''h'', ''k'', '''', '''', '''']))
     = [''docker'', ''compose'', ''-f'',
        ''docker/compose.Enter node type (miner/validator) [miner]: miner.yml'', ''up'', ''-d'']
   \<and> argv (the (docker_run (startup Map.empty False) [''validator'', ''w'', ''h'', ''k'', '''', '''', '''']))
     = [''docker'', ''compose'', ''-f'',
        ''docker/compose.Enter node type (miner/validator) [miner]: validator.yml'', ''up'', ''-d'']"
  by code_simp

end
